theory Spec2Isabelle
  imports Complex_Main "HOL-Library.Sublist"
begin

section \<open>JavaScript values used by the recipe application\<close>

text \<open>
  Strings are lists of code units below 256. A value produced by \<^verbatim>\<open>JSON.parse\<close> is a
  \<open>json\<close>; an object carries its own properties, one entry per key, in insertion order.
  A number is carried as the decimal text \<^verbatim>\<open>JSON.stringify\<close> prints for it (zero, of
  either sign, is \<^verbatim>\<open>0\<close>). An absent property (\<^verbatim>\<open>undefined\<close>) is \<open>None\<close> wherever a
  property is read.
\<close>

datatype json =
    JNull
  | JBool bool
  | JNum string
  | JStr string
  | JArr "json list"
  | JObj "(string \<times> json) list"

text \<open>A thrown \<^verbatim>\<open>Error\<close>; the only property the code reads is \<^verbatim>\<open>message\<close>.\<close>

datatype js_error = Error "string option"

fun message :: "js_error \<Rightarrow> string option" where
  "message (Error m) = m"

text \<open>The settlement of a promise.\<close>

datatype 'a outcome = Rejected js_error | Resolved 'a

text \<open>\<^verbatim>\<open>ToBoolean\<close> on a parsed value: \<^verbatim>\<open>null\<close>, \<^verbatim>\<open>false\<close>, \<^verbatim>\<open>0\<close> and \<^verbatim>\<open>""\<close> are falsy.\<close>

fun truthy :: "json \<Rightarrow> bool" where
  "truthy JNull = False"
| "truthy (JBool b) = b"
| "truthy (JNum x) = (x \<noteq> ''0'')"
| "truthy (JStr s) = (s \<noteq> [])"
| "truthy (JArr xs) = True"
| "truthy (JObj kvs) = True"

text \<open>
  Reading a named property \<^verbatim>\<open>v.k\<close>: on \<^verbatim>\<open>null\<close> it throws a TypeError; on an object it is
  the own property; primitives and arrays have none of the names the application reads.
\<close>

fun read_prop :: "json \<Rightarrow> string \<Rightarrow> js_error + json option" where
  "read_prop JNull k = Inl (Error (Some ''Cannot read properties of null''))"
| "read_prop (JObj kvs) k = Inr (map_of kvs k)"
| "read_prop v k = Inr None"

text \<open>The same read where it cannot throw (object spread skips \<^verbatim>\<open>null\<close> and primitives).\<close>

fun own :: "json \<Rightarrow> string \<Rightarrow> json option" where
  "own (JObj kvs) k = map_of kvs k"
| "own v k = None"

text \<open>\<^verbatim>\<open>String.prototype.trim\<close>: white space and line terminators are stripped at both ends.\<close>

definition is_space :: "char \<Rightarrow> bool" where
  "is_space c = (c \<in> set [CHR 0x09, CHR 0x0A, CHR 0x0B, CHR 0x0C, CHR 0x0D, CHR 0x20, CHR 0xA0])"

definition trim :: "string \<Rightarrow> string" where
  "trim s = rev (dropWhile is_space (rev (dropWhile is_space s)))"

text \<open>\<^verbatim>\<open>String.prototype.includes\<close>: the needle occurs as a contiguous run.\<close>

fun str_includes :: "string \<Rightarrow> string \<Rightarrow> bool" where
  "str_includes [] n = (n = [])"
| "str_includes (c # cs) n = (prefix n (c # cs) \<or> str_includes cs n)"

section \<open>Data model of the application\<close>

text \<open>
  \<^verbatim>\<open>interface Recipe\<close>. The cast \<^verbatim>\<open>as Recipe\<close> checks nothing at run time, so every field
  holds whatever the parsed object has under that key, or nothing.
\<close>

record Recipe =
  title :: "json option"
  summary :: "json option"
  cuisine :: "json option"
  difficulty :: "json option"
  totalTime :: "json option"
  calories :: "json option"
  ingredients :: "json option"
  steps :: "json option"
  rating :: "json option"
  reviewCount :: "json option"
  imageUrl :: "string option"

text \<open>\<^verbatim>\<open>interface FilterState\<close>; the empty string is an unset filter.\<close>

record FilterState =
  cuisine :: string
  timeLimit :: string
  difficulty :: string
  mainIngredient :: string

text \<open>\<^verbatim>\<open>keyof FilterState\<close>.\<close>

datatype FilterKey = Cuisine | TimeLimit | Difficulty | MainIngredient

text \<open>\<^verbatim>\<open>prev[key]\<close> and \<^verbatim>\<open>{...prev, [key]: v}\<close>.\<close>

fun field :: "FilterKey \<Rightarrow> FilterState \<Rightarrow> string" where
  "field Cuisine f = FilterState.cuisine f"
| "field TimeLimit f = timeLimit f"
| "field Difficulty f = FilterState.difficulty f"
| "field MainIngredient f = mainIngredient f"

fun with_field :: "FilterKey \<Rightarrow> string \<Rightarrow> FilterState \<Rightarrow> FilterState" where
  "with_field Cuisine v f = f\<lparr>FilterState.cuisine := v\<rparr>"
| "with_field TimeLimit v f = f\<lparr>timeLimit := v\<rparr>"
| "with_field Difficulty v f = f\<lparr>FilterState.difficulty := v\<rparr>"
| "with_field MainIngredient v f = f\<lparr>mainIngredient := v\<rparr>"

text \<open>
  \<^verbatim>\<open>toggleFilter\<close> (the same in both variants of the application): the updater handed to
  \<^verbatim>\<open>setFilters\<close>, \<^verbatim>\<open>prev => ({...prev, [key]: prev[key] === value ? '' : value})\<close>.
\<close>

definition toggleFilter :: "FilterKey \<Rightarrow> string \<Rightarrow> FilterState \<Rightarrow> FilterState" where
  "toggleFilter key v prev = with_field key (if field key prev = v then [] else v) prev"

section \<open>The generation service\<close>

text \<open>
  The \<^verbatim>\<open>responseSchema\<close> literal: a type, the declared properties, the item schema of an
  array and the names marked required (absent parts are empty). The free-text
  \<^verbatim>\<open>description\<close> strings of one variant are not kept.
\<close>

datatype SchemaType = OBJECT | STRING | NUMBER | ARRAY

datatype Schema =
  Schema (schema_type: SchemaType) (properties: "(string \<times> Schema) list")
    (items: "Schema option") (required: "string list")

definition leaf :: "SchemaType \<Rightarrow> Schema" where
  "leaf t = Schema t [] None []"

definition array_of :: "Schema \<Rightarrow> Schema" where
  "array_of s = Schema ARRAY [] (Some s) []"

text \<open>
  The argument of \<^verbatim>\<open>ai.models.generateContent\<close>, with the key the client was built with.
  A prompt is a fixed template with holes: the recipe prompt has the target dish and the
  filter description, the image prompt the value spliced into the sentence.
\<close>

datatype Contents =
    RecipePrompt string "(FilterKey \<times> string) list"
  | ImagePrompt "json option"

datatype Config =
    TextConfig string Schema
  | ImageConfig string

record GenerateContentParameters =
  client_apiKey :: "string option"
  model :: string
  contents :: Contents
  config :: Config

text \<open>
  What the code reads of a response: \<^verbatim>\<open>text\<close>, represented by what \<^verbatim>\<open>JSON.parse\<close> makes of
  it (\<open>NoText\<close> is an undefined or empty text, which is falsy), and
  \<^verbatim>\<open>candidates?.[0]?.content?.parts\<close> with the inline payload of each part.
\<close>

datatype TextPayload = NoText | Unparseable js_error | Parses json

record InlineData =
  mimeType :: "string option"
  data :: "string option"

record Part =
  inlineData :: "InlineData option"

record Content =
  parts :: "Part list option"

record Candidate =
  content :: "Content option"

record GenerateContentResponse =
  response_text :: TextPayload
  candidates :: "Candidate list option"

type_synonym generateContent = "GenerateContentParameters \<Rightarrow> GenerateContentResponse outcome"

text \<open>A template hole filled with a string that may be \<^verbatim>\<open>undefined\<close>.\<close>

fun tpl :: "string option \<Rightarrow> string" where
  "tpl None = ''undefined''"
| "tpl (Some s) = s"

definition dataUrl :: "InlineData \<Rightarrow> string" where
  "dataUrl d = ''data:'' @ tpl (mimeType d) @ '';base64,'' @ tpl (data d)"

text \<open>\<^verbatim>\<open>imageResponse.candidates?.[0]?.content?.parts\<close>; an empty array is still truthy.\<close>

definition first_parts :: "GenerateContentResponse \<Rightarrow> Part list option" where
  "first_parts r =
     (case candidates r of
        None \<Rightarrow> None
      | Some [] \<Rightarrow> None
      | Some (c # cs) \<Rightarrow> (case content c of None \<Rightarrow> None | Some ct \<Rightarrow> parts ct))"

text \<open>\<^verbatim>\<open>{ ...data, imageUrl: generatedImageUrl }\<close>, read through \<^verbatim>\<open>interface Recipe\<close>.\<close>

definition spread :: "json \<Rightarrow> string option \<Rightarrow> Recipe" where
  "spread d img =
     \<lparr> title = own d ''title'', summary = own d ''summary'', cuisine = own d ''cuisine'',
       difficulty = own d ''difficulty'', totalTime = own d ''totalTime'',
       calories = own d ''calories'', ingredients = own d ''ingredients'',
       steps = own d ''steps'', rating = own d ''rating'',
       reviewCount = own d ''reviewCount'', imageUrl = img \<rparr>"

text \<open>
  The filter description: the labelled entries of the non-empty filters, in the order
  cuisine, time limit, difficulty, main ingredient (the source joins them with a comma).
\<close>

definition filterDesc :: "FilterState \<Rightarrow> (FilterKey \<times> string) list" where
  "filterDesc f =
     filter (\<lambda>kv. snd kv \<noteq> [])
       [(Cuisine, FilterState.cuisine f), (TimeLimit, timeLimit f),
        (Difficulty, FilterState.difficulty f), (MainIngredient, mainIngredient f)]"

section \<open>Application state\<close>

text \<open>
  The messages handed to \<^verbatim>\<open>setError\<close>, in source order: the validation message, the fixed
  failure message of \<^verbatim>\<open>src/index.tsx\<close>, and the three classified messages of the
  credential-aware variant (the last carries the error's message, or nothing where the
  source prints its "unknown error" text).
\<close>

datatype Message =
    EnterDishOrIngredient
  | GenerationFailedRetry
  | ApiKeyInvalid
  | TooManyRequests
  | GenerationFailed "string option"

text \<open>The \<^verbatim>\<open>useState\<close> cells of \<^verbatim>\<open>App\<close>; the second variant adds the credential cells.\<close>

record AppState =
  query :: string
  filters :: FilterState
  showFilters :: bool
  loading :: bool
  recipe :: "Recipe option"
  error :: "Message option"

record KeyedState = AppState +
  apiKey :: string
  showSettings :: bool

section \<open>handleSearch of src/index.tsx\<close>

definition responseSchema_index :: Schema where
  "responseSchema_index =
     Schema OBJECT
       [(''title'', leaf STRING), (''summary'', leaf STRING), (''cuisine'', leaf STRING),
        (''difficulty'', leaf STRING), (''totalTime'', leaf STRING), (''calories'', leaf NUMBER),
        (''ingredients'', array_of (leaf STRING)), (''steps'', array_of (leaf STRING)),
        (''rating'', leaf NUMBER), (''reviewCount'', leaf STRING)]
       None
       [''title'', ''summary'', ''cuisine'', ''difficulty'', ''totalTime'', ''ingredients'',
        ''steps'', ''rating'']"

definition textRequest_index :: "string option \<Rightarrow> AppState \<Rightarrow> GenerateContentParameters" where
  "textRequest_index API_KEY s =
     \<lparr> client_apiKey = API_KEY, model = ''gemini-3-flash-preview'',
       contents = RecipePrompt (query s) (filterDesc (filters s)),
       config = TextConfig ''application/json'' responseSchema_index \<rparr>"

definition imageRequest_index :: "string option \<Rightarrow> AppState \<Rightarrow> GenerateContentParameters" where
  "imageRequest_index API_KEY s =
     \<lparr> client_apiKey = API_KEY, model = ''gemini-2.5-flash-image'',
       contents = ImagePrompt (Some (JStr (query s))),
       config = ImageConfig ''16:9'' \<rparr>"

text \<open>
  The part of \<^verbatim>\<open>handleSearch\<close> that runs before the first \<^verbatim>\<open>await\<close>: the validation, the
  three state resets and the two requests, both issued before either is awaited.
\<close>

definition handleSearch_index_begin ::
  "string option \<Rightarrow> AppState \<Rightarrow> AppState \<times> (GenerateContentParameters \<times> GenerateContentParameters) option" where
  "handleSearch_index_begin API_KEY s =
     (if trim (query s) = [] \<and> mainIngredient (filters s) = []
      then (s\<lparr>error := Some EnterDishOrIngredient\<rparr>, None)
      else (s\<lparr>loading := True, error := None, recipe := None\<rparr>,
            Some (textRequest_index API_KEY s, imageRequest_index API_KEY s)))"

text \<open>
  \<^verbatim>\<open>Promise.all\<close> of two promises: it resolves when both do and rejects when either does
  (the reason is only logged by the caller).
\<close>

fun promise_all :: "'a outcome \<Rightarrow> 'b outcome \<Rightarrow> ('a \<times> 'b) outcome" where
  "promise_all (Resolved a) (Resolved b) = Resolved (a, b)"
| "promise_all (Rejected e) b = Rejected e"
| "promise_all a (Rejected e) = Rejected e"

text \<open>Step 3 of the source: an empty text throws, a text that does not parse throws.\<close>

fun parse_index :: "TextPayload \<Rightarrow> js_error + json" where
  "parse_index NoText = Inl (Error (Some ''Text generation failed''))"
| "parse_index (Unparseable e) = Inl e"
| "parse_index (Parses d) = Inr d"

text \<open>Step 4: the loop over the parts stops at the first part with inline data.\<close>

fun first_inline_loop :: "Part list \<Rightarrow> string option" where
  "first_inline_loop [] = None"
| "first_inline_loop (p # ps) =
     (case inlineData p of Some d \<Rightarrow> Some (dataUrl d) | None \<Rightarrow> first_inline_loop ps)"

definition generatedImageUrl_index :: "GenerateContentResponse \<Rightarrow> string option" where
  "generatedImageUrl_index r =
     (case first_parts r of None \<Rightarrow> None | Some ps \<Rightarrow> first_inline_loop ps)"

definition handleSearch_index_try ::
  "GenerateContentResponse outcome \<Rightarrow> GenerateContentResponse outcome \<Rightarrow> AppState \<Rightarrow> js_error + AppState" where
  "handleSearch_index_try textRequest imageRequest s =
     (case promise_all textRequest imageRequest of
        Rejected e \<Rightarrow> Inl e
      | Resolved (textResponse, imageResponse) \<Rightarrow>
          (case parse_index (response_text textResponse) of
             Inl e \<Rightarrow> Inl e
           | Inr d \<Rightarrow>
               Inr (if truthy d
                    then s\<lparr>recipe := Some (spread d (generatedImageUrl_index imageResponse))\<rparr>
                    else s)))"

text \<open>
  The whole of \<^verbatim>\<open>handleSearch\<close>: the final state and the requests issued. The \<^verbatim>\<open>catch\<close>
  block sets the one fixed message; \<^verbatim>\<open>finally\<close> clears the loading flag.
\<close>

definition handleSearch_index ::
  "string option \<Rightarrow> generateContent \<Rightarrow> AppState \<Rightarrow> AppState \<times> GenerateContentParameters list" where
  "handleSearch_index API_KEY generateContent s =
     (case handleSearch_index_begin API_KEY s of
        (s', None) \<Rightarrow> (s', [])
      | (s1, Some (textRequest, imageRequest)) \<Rightarrow>
          (let s2 = (case handleSearch_index_try (generateContent textRequest)
                            (generateContent imageRequest) s1 of
                       Inl e \<Rightarrow> s1\<lparr>error := Some GenerationFailedRetry\<rparr>
                     | Inr s' \<Rightarrow> s')
           in (s2\<lparr>loading := False\<rparr>, [textRequest, imageRequest])))"

section \<open>handleSearch of the credential-aware variant (src/unnamed/part_000)\<close>

definition responseSchema_part000 :: Schema where
  "responseSchema_part000 =
     Schema OBJECT
       [(''title'', leaf STRING), (''summary'', leaf STRING), (''cuisine'', leaf STRING),
        (''difficulty'', leaf STRING), (''totalTime'', leaf STRING), (''calories'', leaf NUMBER),
        (''ingredients'', array_of (leaf STRING)), (''steps'', array_of (leaf STRING)),
        (''rating'', leaf NUMBER), (''reviewCount'', leaf STRING)]
       None
       [''title'', ''summary'', ''ingredients'', ''steps'']"

text \<open>The target dish is \<^verbatim>\<open>query || filters.mainIngredient\<close>.\<close>

definition textRequest_part000 :: "KeyedState \<Rightarrow> GenerateContentParameters" where
  "textRequest_part000 s =
     \<lparr> client_apiKey = Some (apiKey s), model = ''gemini-3-pro-preview'',
       contents = RecipePrompt (if query s \<noteq> [] then query s else mainIngredient (filters s))
                    (filterDesc (filters s)),
       config = TextConfig ''application/json'' responseSchema_part000 \<rparr>"

definition imageRequest_part000 :: "string \<Rightarrow> json option \<Rightarrow> GenerateContentParameters" where
  "imageRequest_part000 k t =
     \<lparr> client_apiKey = Some k, model = ''gemini-2.5-flash-image'',
       contents = ImagePrompt t, config = ImageConfig ''16:9'' \<rparr>"

text \<open>Up to the first \<^verbatim>\<open>await\<close>: the credential guard, the validation, the resets, the text request.\<close>

definition handleSearch_part000_begin ::
  "KeyedState \<Rightarrow> KeyedState \<times> GenerateContentParameters option" where
  "handleSearch_part000_begin s =
     (if apiKey s = [] then (s\<lparr>showSettings := True\<rparr>, None)
      else if trim (query s) = [] \<and> mainIngredient (filters s) = []
      then (s\<lparr>error := Some EnterDishOrIngredient\<rparr>, None)
      else (s\<lparr>loading := True, error := None, recipe := None\<rparr>, Some (textRequest_part000 s)))"

text \<open>\<^verbatim>\<open>JSON.parse(textResponse.text || '{}')\<close>: an empty text parses as the empty object.\<close>

fun parse_part000 :: "TextPayload \<Rightarrow> js_error + json" where
  "parse_part000 NoText = Inr (JObj [])"
| "parse_part000 (Unparseable e) = Inl e"
| "parse_part000 (Parses d) = Inr d"

text \<open>\<^verbatim>\<open>parts.find(p => p.inlineData)\<close>, then \<^verbatim>\<open>part?.inlineData\<close>.\<close>

definition generatedImageUrl_part000 :: "GenerateContentResponse \<Rightarrow> string option" where
  "generatedImageUrl_part000 r =
     (case first_parts r of
        None \<Rightarrow> None
      | Some ps \<Rightarrow>
          (case find (\<lambda>p. inlineData p \<noteq> None) ps of
             None \<Rightarrow> None
           | Some p \<Rightarrow> map_option dataUrl (inlineData p)))"

text \<open>
  The inner \<^verbatim>\<open>try\<close>: reading \<^verbatim>\<open>data.title\<close> for the prompt throws on \<^verbatim>\<open>null\<close> before any
  request is made; a rejected image request is caught as well. Either way the image is
  \<^verbatim>\<open>undefined\<close>. The result is the image and the requests issued.
\<close>

definition generateImage_part000 ::
  "generateContent \<Rightarrow> string \<Rightarrow> json \<Rightarrow> string option \<times> GenerateContentParameters list" where
  "generateImage_part000 generateContent k d =
     (case read_prop d ''title'' of
        Inl imgErr \<Rightarrow> (None, [])
      | Inr t \<Rightarrow>
          (case generateContent (imageRequest_part000 k t) of
             Rejected imgErr \<Rightarrow> (None, [imageRequest_part000 k t])
           | Resolved imageResponse \<Rightarrow>
               (generatedImageUrl_part000 imageResponse, [imageRequest_part000 k t])))"

text \<open>\<^verbatim>\<open>err.message?.includes(n)\<close>: an error without a message matches nothing.\<close>

fun message_includes :: "js_error \<Rightarrow> string \<Rightarrow> bool" where
  "message_includes (Error None) n = False"
| "message_includes (Error (Some m)) n = str_includes m n"

text \<open>\<^verbatim>\<open>err.message || (unknown error)\<close>: an empty message counts as none.\<close>

fun message_or_unknown :: "js_error \<Rightarrow> string option" where
  "message_or_unknown (Error None) = None"
| "message_or_unknown (Error (Some m)) = (if m = [] then None else Some m)"

text \<open>The outer \<^verbatim>\<open>catch\<close> block.\<close>

definition handleSearch_part000_catch :: "js_error \<Rightarrow> KeyedState \<Rightarrow> KeyedState" where
  "handleSearch_part000_catch err s =
     (if message_includes err ''403'' \<or> message_includes err ''API_KEY_INVALID''
      then s\<lparr>error := Some ApiKeyInvalid, showSettings := True\<rparr>
      else if message_includes err ''429''
      then s\<lparr>error := Some TooManyRequests\<rparr>
      else s\<lparr>error := Some (GenerationFailed (message_or_unknown err))\<rparr>)"

text \<open>The whole of \<^verbatim>\<open>handleSearch\<close>: the final state and the requests issued, in order.\<close>

definition handleSearch_part000 ::
  "generateContent \<Rightarrow> KeyedState \<Rightarrow> KeyedState \<times> GenerateContentParameters list" where
  "handleSearch_part000 generateContent s =
     (case handleSearch_part000_begin s of
        (s', None) \<Rightarrow> (s', [])
      | (s1, Some textRequest) \<Rightarrow>
          (case generateContent textRequest of
             Rejected err \<Rightarrow>
               ((handleSearch_part000_catch err s1)\<lparr>loading := False\<rparr>, [textRequest])
           | Resolved textResponse \<Rightarrow>
               (case parse_part000 (response_text textResponse) of
                  Inl err \<Rightarrow>
                    ((handleSearch_part000_catch err s1)\<lparr>loading := False\<rparr>, [textRequest])
                | Inr d \<Rightarrow>
                    (case generateImage_part000 generateContent (apiKey s) d of
                       (generatedImageUrl, issued) \<Rightarrow>
                         (s1\<lparr>recipe := Some (spread d generatedImageUrl), loading := False\<rparr>,
                          textRequest # issued)))))"

section \<open>Entry points of the search\<close>

text \<open>
  The two controls wired to \<^verbatim>\<open>handleSearch\<close>: the button, which carries
  \<^verbatim>\<open>disabled={loading}\<close>, and the query input, whose \<^verbatim>\<open>onKeyDown\<close> is
  \<^verbatim>\<open>e.key === 'Enter' && handleSearch()\<close>. A session pairs the state with the number of
  searches that have been started and not settled.
\<close>

datatype Event = ClickSearch | KeyDownQuery string

definition start_index :: "string option \<Rightarrow> AppState \<times> nat \<Rightarrow> AppState \<times> nat" where
  "start_index API_KEY sn =
     (case handleSearch_index_begin API_KEY (fst sn) of
        (s', None) \<Rightarrow> (s', snd sn)
      | (s1, Some rs) \<Rightarrow> (s1, Suc (snd sn)))"

fun dispatch_index :: "string option \<Rightarrow> Event \<Rightarrow> AppState \<times> nat \<Rightarrow> AppState \<times> nat" where
  "dispatch_index API_KEY ClickSearch sn =
     (if loading (fst sn) then sn else start_index API_KEY sn)"
| "dispatch_index API_KEY (KeyDownQuery k) sn =
     (if k = ''Enter'' then start_index API_KEY sn else sn)"

definition start_part000 :: "KeyedState \<times> nat \<Rightarrow> KeyedState \<times> nat" where
  "start_part000 sn =
     (case handleSearch_part000_begin (fst sn) of
        (s', None) \<Rightarrow> (s', snd sn)
      | (s1, Some r) \<Rightarrow> (s1, Suc (snd sn)))"

fun dispatch_part000 :: "Event \<Rightarrow> KeyedState \<times> nat \<Rightarrow> KeyedState \<times> nat" where
  "dispatch_part000 ClickSearch sn = (if loading (fst sn) then sn else start_part000 sn)"
| "dispatch_part000 (KeyDownQuery k) sn = (if k = ''Enter'' then start_part000 sn else sn)"

section \<open>The credential store (src/unnamed/part_000)\<close>

text \<open>
  What the credential code reads outside the component: \<^verbatim>\<open>localStorage\<close> and the
  build-time \<^verbatim>\<open>process.env.API_KEY\<close>.
\<close>

record Browser =
  localStorage :: "string \<rightharpoonup> string"
  env_API_KEY :: "string option"

definition initialState :: KeyedState where
  "initialState =
     \<lparr> query = [], filters = \<lparr>cuisine = [], timeLimit = [], difficulty = [], mainIngredient = []\<rparr>,
       showFilters = False, loading = False, recipe = None, error = None,
       apiKey = [], showSettings = False \<rparr>"

text \<open>A string that may be \<^verbatim>\<open>null\<close> or \<^verbatim>\<open>undefined\<close>, kept when it is truthy.\<close>

fun truthy_string :: "string option \<Rightarrow> string option" where
  "truthy_string None = None"
| "truthy_string (Some v) = (if v = [] then None else Some v)"

text \<open>The mount effect: the stored key, else the environment's, else ask for one.\<close>

definition initApiKey :: "Browser \<Rightarrow> KeyedState \<Rightarrow> KeyedState" where
  "initApiKey w s =
     (case truthy_string (localStorage w ''gemini_api_key'') of
        Some localKey \<Rightarrow> s\<lparr>apiKey := localKey\<rparr>
      | None \<Rightarrow>
          (case truthy_string (env_API_KEY w) of
             Some envKey \<Rightarrow> s\<lparr>apiKey := envKey\<rparr>
           | None \<Rightarrow> s\<lparr>showSettings := True\<rparr>))"

text \<open>\<^verbatim>\<open>handleSaveKey\<close>, given the value of the key input; \<^verbatim>\<open>handleClearKey\<close>.\<close>

definition handleSaveKey :: "string \<Rightarrow> Browser \<times> KeyedState \<Rightarrow> Browser \<times> KeyedState" where
  "handleSaveKey v ws =
     (if trim v \<noteq> []
      then ((fst ws)\<lparr>localStorage := (localStorage (fst ws))(''gemini_api_key'' \<mapsto> trim v)\<rparr>,
            (snd ws)\<lparr>apiKey := trim v, showSettings := False, error := None\<rparr>)
      else ws)"

definition handleClearKey :: "Browser \<times> KeyedState \<Rightarrow> Browser \<times> KeyedState" where
  "handleClearKey ws =
     ((fst ws)\<lparr>localStorage := (localStorage (fst ws))(''gemini_api_key'' := None)\<rparr>,
      (snd ws)\<lparr>apiKey := []\<rparr>)"

section \<open>The relay endpoint (src/api/chat.js)\<close>

text \<open>
  \<^verbatim>\<open>src/unnamed/part_001\<close> is the same handler with the model name taken from the request;
  it builds its four responses in the same way.
\<close>

text \<open>\<^verbatim>\<open>JSON.stringify\<close> without indentation: the escapes of a quoted string first.\<close>

definition hex_digit :: "nat \<Rightarrow> char" where
  "hex_digit n = ''0123456789abcdef'' ! (n mod 16)"

definition quote_char :: "char \<Rightarrow> string" where
  "quote_char c =
     (if c = CHR 0x08 then [CHR 0x5C, CHR ''b'']
      else if c = CHR 0x09 then [CHR 0x5C, CHR ''t'']
      else if c = CHR 0x0A then [CHR 0x5C, CHR ''n'']
      else if c = CHR 0x0C then [CHR 0x5C, CHR ''f'']
      else if c = CHR 0x0D then [CHR 0x5C, CHR ''r'']
      else if c = CHR 0x22 then [CHR 0x5C, CHR 0x22]
      else if c = CHR 0x5C then [CHR 0x5C, CHR 0x5C]
      else if (of_char c :: nat) < 32
      then [CHR 0x5C, CHR ''u'', CHR ''0'', CHR ''0'',
            hex_digit ((of_char c :: nat) div 16), hex_digit (of_char c :: nat)]
      else [c])"

definition quote :: "string \<Rightarrow> string" where
  "quote s = [CHR 0x22] @ concat (map quote_char s) @ [CHR 0x22]"

fun join :: "string \<Rightarrow> string list \<Rightarrow> string" where
  "join sep [] = []"
| "join sep [x] = x"
| "join sep (x # y # ys) = x @ sep @ join sep (y # ys)"

fun JSON_stringify :: "json \<Rightarrow> string"
  and stringify_elements :: "json list \<Rightarrow> string list"
  and stringify_members :: "(string \<times> json) list \<Rightarrow> string list" where
  "JSON_stringify JNull = ''null''"
| "JSON_stringify (JBool b) = (if b then ''true'' else ''false'')"
| "JSON_stringify (JNum n) = n"
| "JSON_stringify (JStr s) = quote s"
| "JSON_stringify (JArr xs) = ''['' @ join '','' (stringify_elements xs) @ '']''"
| "JSON_stringify (JObj kvs) = ''{'' @ join '','' (stringify_members kvs) @ ''}''"
| "stringify_elements [] = []"
| "stringify_elements (x # xs) = JSON_stringify x # stringify_elements xs"
| "stringify_members [] = []"
| "stringify_members (kv # kvs) =
     (quote (fst kv) @ '':'' @ JSON_stringify (snd kv)) # stringify_members kvs"

text \<open>A status code spliced into a template: its decimal digits.\<close>

fun show_nat :: "nat \<Rightarrow> string" where
  "show_nat n =
     (if n < 10 then [''0123456789'' ! n]
      else show_nat (n div 10) @ [''0123456789'' ! (n mod 10)])"

text \<open>
  The request as the handler reads it, and the upstream response: its status (\<^verbatim>\<open>ok\<close> is a
  status from 200 to 299) and what \<^verbatim>\<open>text()\<close> and \<^verbatim>\<open>json()\<close> give.
\<close>

record RelayRequest =
  http_method :: string
  request_json :: "js_error + json"

record UpstreamResponse =
  status :: nat
  upstream_text :: "js_error + string"
  upstream_json :: "js_error + json"

definition ok :: "UpstreamResponse \<Rightarrow> bool" where
  "ok r = (200 \<le> status r \<and> status r \<le> 299)"

record FetchRequest =
  url :: string
  fetch_method :: string
  authorization :: json
  fetch_body :: string

record Response =
  response_status :: nat
  content_type :: string
  response_body :: string

text \<open>
  \<^verbatim>\<open>new Response(body, { status, headers })\<close> with a body: the constructor throws a
  RangeError for a status outside 200..599 and a TypeError for a status that admits no
  body (101, 103, 204, 205, 304).
\<close>

definition new_Response :: "string \<Rightarrow> nat \<Rightarrow> js_error + Response" where
  "new_Response b st =
     (if st < 200 \<or> 599 < st then Inl (Error (Some ''status out of range''))
      else if st \<in> set [204, 205, 304] then Inl (Error (Some ''status admits no body''))
      else Inr \<lparr> response_status = st, content_type = ''application/json'', response_body = b \<rparr>)"

text \<open>\<^verbatim>\<open>apiKey || (embedded key)\<close>; the embedded literal is the parameter \<open>fallback\<close>.\<close>

fun key_or :: "json option \<Rightarrow> string \<Rightarrow> json" where
  "key_or None fallback = JStr fallback"
| "key_or (Some k) fallback = (if truthy k then k else JStr fallback)"

text \<open>An object literal entry whose value may be \<^verbatim>\<open>undefined\<close>: it is then left out.\<close>

fun entry :: "string \<Rightarrow> json option \<Rightarrow> (string \<times> json) list" where
  "entry k None = []"
| "entry k (Some v) = [(k, v)]"

definition upstreamRequest :: "string \<Rightarrow> json option \<Rightarrow> json option \<Rightarrow> FetchRequest" where
  "upstreamRequest fallback messages k =
     \<lparr> url = ''https://api.xiaomimimo.com/v1/chat/completions'', fetch_method = ''POST'',
       authorization = key_or k fallback,
       fetch_body =
         JSON_stringify
           (JObj ([(''model'', JStr ''mimilm'')] @ entry ''messages'' messages @
                  [(''temperature'', JNum ''0.7''), (''max_tokens'', JNum ''2048''),
                   (''stream'', JBool False),
                   (''response_format'', JObj [(''type'', JStr ''json_object'')])])) \<rparr>"

text \<open>The body of the \<^verbatim>\<open>try\<close> block; \<open>Inl\<close> is a throw.\<close>

definition handler_try ::
  "string \<Rightarrow> (FetchRequest \<Rightarrow> UpstreamResponse outcome) \<Rightarrow> RelayRequest \<Rightarrow> js_error + Response" where
  "handler_try fallback fetch req =
     (case request_json req of
        Inl e \<Rightarrow> Inl e
      | Inr b \<Rightarrow>
          (case read_prop b ''messages'' of
             Inl e \<Rightarrow> Inl e
           | Inr messages \<Rightarrow>
               (case fetch (upstreamRequest fallback messages (own b ''apiKey'')) of
                  Rejected e \<Rightarrow> Inl e
                | Resolved response \<Rightarrow>
                    (if ok response
                     then (case upstream_json response of
                             Inl e \<Rightarrow> Inl e
                           | Inr d \<Rightarrow> new_Response (JSON_stringify d) 200)
                     else (case upstream_text response of
                             Inl e \<Rightarrow> Inl e
                           | Inr errorText \<Rightarrow>
                               new_Response
                                 (JSON_stringify
                                    (JObj [(''error'', JStr (''Provider Error: '' @ show_nat (status response))),
                                           (''details'', JStr errorText)]))
                                 (status response))))))"

definition handler ::
  "string \<Rightarrow> (FetchRequest \<Rightarrow> UpstreamResponse outcome) \<Rightarrow> RelayRequest \<Rightarrow> Response" where
  "handler fallback fetch req =
     (if http_method req = ''POST''
      then (case handler_try fallback fetch req of
              Inr r \<Rightarrow> r
            | Inl err \<Rightarrow>
                \<lparr> response_status = 500, content_type = ''application/json'',
                  response_body =
                    JSON_stringify (JObj (entry ''error'' (map_option JStr (message err)))) \<rparr>)
      else \<lparr> response_status = 405, content_type = ''application/json'',
             response_body = JSON_stringify (JObj [(''error'', JStr ''Method Not Allowed'')]) \<rparr>)"

section \<open>Sample inputs\<close>

text \<open>
  States, service behaviours and relay exchanges at which the properties below are
  evaluated: a search for a dish, the same with a stored key, a blank search, a search
  whose only input is a one-space main ingredient, and services that answer the text
  request and refuse the image, answer with text that is not JSON, or refuse everything.
\<close>

definition soup_state :: AppState where
  "soup_state =
     \<lparr> query = ''soup'', filters = \<lparr>cuisine = [], timeLimit = [], difficulty = [], mainIngredient = []\<rparr>,
       showFilters = False, loading = False, recipe = None, error = None \<rparr>"

definition keyed_soup_state :: KeyedState where
  "keyed_soup_state =
     \<lparr> query = ''soup'', filters = \<lparr>cuisine = [], timeLimit = [], difficulty = [], mainIngredient = []\<rparr>,
       showFilters = False, loading = False, recipe = None, error = None,
       apiKey = ''key'', showSettings = False \<rparr>"

definition blank_state :: AppState where
  "blank_state =
     \<lparr> query = ''  '', filters = \<lparr>cuisine = ''A'', timeLimit = [], difficulty = [], mainIngredient = []\<rparr>,
       showFilters = False, loading = False, recipe = None, error = None \<rparr>"

definition blank_keyed_state :: "string \<Rightarrow> KeyedState" where
  "blank_keyed_state k =
     \<lparr> query = ''  '', filters = \<lparr>cuisine = ''A'', timeLimit = [], difficulty = [], mainIngredient = []\<rparr>,
       showFilters = False, loading = False, recipe = None, error = None,
       apiKey = k, showSettings = False \<rparr>"

definition space_ingredient_state :: AppState where
  "space_ingredient_state =
     \<lparr> query = [], filters = \<lparr>cuisine = [], timeLimit = [], difficulty = [], mainIngredient = '' ''\<rparr>,
       showFilters = False, loading = False, recipe = None, error = None \<rparr>"

definition space_ingredient_keyed_state :: KeyedState where
  "space_ingredient_keyed_state =
     \<lparr> query = [], filters = \<lparr>cuisine = [], timeLimit = [], difficulty = [], mainIngredient = '' ''\<rparr>,
       showFilters = False, loading = False, recipe = None, error = None,
       apiKey = ''key'', showSettings = False \<rparr>"

definition soup_json :: json where
  "soup_json =
     JObj [(''title'', JStr ''Soup''), (''summary'', JStr ''From three sources''),
           (''ingredients'', JArr [JStr ''water'']), (''steps'', JArr [JStr ''boil''])]"

definition summary_only :: json where
  "summary_only = JObj [(''summary'', JStr ''From three sources'')]"

definition text_only_service :: "json \<Rightarrow> generateContent" where
  "text_only_service d r =
     (case contents r of
        RecipePrompt dish constraints \<Rightarrow> Resolved \<lparr>response_text = Parses d, candidates = None\<rparr>
      | ImagePrompt subject \<Rightarrow> Rejected (Error (Some ''image model unavailable'')))"

definition unparseable_service :: generateContent where
  "unparseable_service r =
     Resolved \<lparr>response_text = Unparseable (Error (Some ''Unexpected token <'')), candidates = None\<rparr>"

definition rejecting_service :: "string \<Rightarrow> generateContent" where
  "rejecting_service m r = Rejected (Error (Some m))"

definition empty_browser :: "string option \<Rightarrow> Browser" where
  "empty_browser env = \<lparr> localStorage = Map.empty, env_API_KEY = env \<rparr>"

definition post_request :: RelayRequest where
  "post_request = \<lparr> http_method = ''POST'', request_json = Inr (JObj [(''messages'', JArr [])]) \<rparr>"

definition get_request :: RelayRequest where
  "get_request = \<lparr> http_method = ''GET'', request_json = Inl (Error (Some ''Unexpected end of JSON input'')) \<rparr>"

definition failing_upstream :: UpstreamResponse where
  "failing_upstream =
     \<lparr> status = 500, upstream_text = Inr ''busy'',
       upstream_json = Inl (Error (Some ''Unexpected token o'')) \<rparr>"

definition successful_upstream :: UpstreamResponse where
  "successful_upstream =
     \<lparr> status = 200, upstream_text = Inr ''ok'', upstream_json = Inr (JObj [(''id'', JStr ''1'')]) \<rparr>"

definition network_down :: "FetchRequest \<Rightarrow> UpstreamResponse outcome" where
  "network_down r = Rejected (Error (Some ''fetch failed''))"

definition answering :: "UpstreamResponse \<Rightarrow> FetchRequest \<Rightarrow> UpstreamResponse outcome" where
  "answering up r = Resolved up"

section \<open>Shared facts\<close>

lemma trim_soup: "trim ''soup'' = ''soup''"
  by (simp add: trim_def is_space_def)

lemma trim_blank: "trim ''  '' = []"
  by (simp add: trim_def is_space_def)

lemma part000_begin_proceeds:
  "apiKey s \<noteq> [] \<Longrightarrow> \<not> (trim (query s) = [] \<and> mainIngredient (filters s) = []) \<Longrightarrow>
   handleSearch_part000_begin s
     = (s\<lparr>loading := True, error := None, recipe := None\<rparr>, Some (textRequest_part000 s))"
  by (simp add: handleSearch_part000_begin_def)

lemma read_prop_own: "b \<noteq> JNull \<Longrightarrow> read_prop b k = Inr (own b k)"
  by (cases b) simp_all

section \<open>Image failure\<close>

text \<open>
  In the credential-aware variant a refused image request is caught: the search ends
  with the recipe of the text response, no image and no error.
\<close>

lemma generateImage_part000_rejected:
  assumes "\<And>t. \<exists>e. generateContent (imageRequest_part000 k t) = Rejected e"
  shows "fst (generateImage_part000 generateContent k d) = None"
proof (cases "read_prop d ''title''")
  case (Inl imgErr)
  then show ?thesis
    by (simp add: generateImage_part000_def)
next
  case (Inr t)
  obtain e where "generateContent (imageRequest_part000 k t) = Rejected e"
    using assms by blast
  with Inr show ?thesis
    by (simp add: generateImage_part000_def)
qed

lemma handleSearch_part000_image_failure_tolerated:
  assumes "apiKey s \<noteq> []"
    and "\<not> (trim (query s) = [] \<and> mainIngredient (filters s) = [])"
    and "generateContent (textRequest_part000 s) = Resolved textResponse"
    and "parse_part000 (response_text textResponse) = Inr d"
    and "\<And>t. \<exists>e. generateContent (imageRequest_part000 (apiKey s) t) = Rejected e"
  shows "fst (handleSearch_part000 generateContent s)
           = s\<lparr>loading := False, error := None, recipe := Some (spread d None)\<rparr>"
proof -
  have img: "fst (generateImage_part000 generateContent (apiKey s) d) = None"
    using assms(5) by (rule generateImage_part000_rejected)
  obtain issued where "generateImage_part000 generateContent (apiKey s) d = (None, issued)"
    using img by (cases "generateImage_part000 generateContent (apiKey s) d") simp
  then show ?thesis
    using assms(1-4) by (simp add: handleSearch_part000_def part000_begin_proceeds)
qed

lemma handleSearch_part000_image_failure_tolerated_example:
  "fst (handleSearch_part000 (text_only_service soup_json) keyed_soup_state)
     = keyed_soup_state\<lparr>loading := False, error := None, recipe := Some (spread soup_json None)\<rparr>"
proof -
  have 1: "apiKey keyed_soup_state \<noteq> []" by (simp add: keyed_soup_state_def)
  have 2: "\<not> (trim (query keyed_soup_state) = [] \<and> mainIngredient (filters keyed_soup_state) = [])"
    by (simp add: keyed_soup_state_def trim_soup)
  have 3: "text_only_service soup_json (textRequest_part000 keyed_soup_state)
             = Resolved \<lparr>response_text = Parses soup_json, candidates = None\<rparr>"
    by (simp add: text_only_service_def textRequest_part000_def)
  have 4: "parse_part000 (response_text \<lparr>response_text = Parses soup_json, candidates = None\<rparr>) = Inr soup_json"
    by simp
  have 5: "\<And>t. \<exists>e. text_only_service soup_json (imageRequest_part000 (apiKey keyed_soup_state) t) = Rejected e"
    by (simp add: text_only_service_def imageRequest_part000_def)
  show ?thesis
    by (rule handleSearch_part000_image_failure_tolerated [OF 1 2 3 4 5])
qed

text \<open>
  C1. A search whose text request succeeds and whose image request fails should still end
  with a recipe without image. In \<^verbatim>\<open>src/index.tsx\<close> the two requests are awaited through
  \<^verbatim>\<open>Promise.all\<close>, so the refused image request rejects the pair: for the dish \<open>soup\<close>, a
  text response holding a complete recipe and a refused image request, the search ends
  with no recipe and the fixed failure message, after issuing both requests.
\<close>

theorem handleSearch_index_image_failure_fails_search:
  "recipe (fst (handleSearch_index None (text_only_service soup_json) soup_state)) = None
   \<and> error (fst (handleSearch_index None (text_only_service soup_json) soup_state)) = Some GenerationFailedRetry
   \<and> loading (fst (handleSearch_index None (text_only_service soup_json) soup_state)) = False
   \<and> snd (handleSearch_index None (text_only_service soup_json) soup_state)
       = [textRequest_index None soup_state, imageRequest_index None soup_state]"
  by (simp add: handleSearch_index_def handleSearch_index_begin_def handleSearch_index_try_def
      text_only_service_def soup_state_def trim_def is_space_def textRequest_index_def imageRequest_index_def)

section \<open>Searches in flight\<close>

text \<open>
  C2. No second search should start while one is in flight. The button is disabled while
  \<open>loading\<close> is set, and a click then changes nothing; the Enter key in the query input
  calls \<^verbatim>\<open>handleSearch\<close> all the same, and a second search starts. In both variants: the
  first click starts one search, a click during it starts none, Enter during it makes
  the count two.
\<close>

theorem enter_key_starts_second_search:
  "dispatch_index None ClickSearch (soup_state, 0) = (soup_state\<lparr>loading := True\<rparr>, 1)
   \<and> dispatch_index None ClickSearch (soup_state\<lparr>loading := True\<rparr>, 1) = (soup_state\<lparr>loading := True\<rparr>, 1)
   \<and> dispatch_index None (KeyDownQuery ''Enter'') (soup_state\<lparr>loading := True\<rparr>, 1)
       = (soup_state\<lparr>loading := True\<rparr>, 2)
   \<and> dispatch_part000 ClickSearch (keyed_soup_state, 0) = (keyed_soup_state\<lparr>loading := True\<rparr>, 1)
   \<and> dispatch_part000 ClickSearch (keyed_soup_state\<lparr>loading := True\<rparr>, 1)
       = (keyed_soup_state\<lparr>loading := True\<rparr>, 1)
   \<and> dispatch_part000 (KeyDownQuery ''Enter'') (keyed_soup_state\<lparr>loading := True\<rparr>, 1)
       = (keyed_soup_state\<lparr>loading := True\<rparr>, 2)"
  by (simp add: start_index_def start_part000_def handleSearch_index_begin_def
      handleSearch_part000_begin_def soup_state_def keyed_soup_state_def trim_def is_space_def)

section \<open>Parsing the text response\<close>

lemma handleSearch_part000_parse_failure:
  assumes "apiKey s \<noteq> []"
    and "\<not> (trim (query s) = [] \<and> mainIngredient (filters s) = [])"
    and "generateContent (textRequest_part000 s) = Resolved textResponse"
    and "parse_part000 (response_text textResponse) = Inl e"
  shows "fst (handleSearch_part000 generateContent s)
           = (handleSearch_part000_catch e (s\<lparr>loading := True, error := None, recipe := None\<rparr>))
               \<lparr>loading := False\<rparr>"
  using assms by (simp add: handleSearch_part000_def part000_begin_proceeds)

lemma handleSearch_index_parse_failure:
  assumes "\<not> (trim (query a) = [] \<and> mainIngredient (filters a) = [])"
    and "generateContent (textRequest_index k a) = Resolved textResponse"
    and "parse_index (response_text textResponse) = Inl e"
  shows "fst (handleSearch_index k generateContent a)
           = a\<lparr>loading := False, error := Some GenerationFailedRetry, recipe := None\<rparr>"
proof -
  have "\<exists>e'. handleSearch_index_try (Resolved textResponse) (generateContent (imageRequest_index k a))
            (a\<lparr>loading := True, error := None, recipe := None\<rparr>) = Inl e'"
    using assms(3)
    by (cases "generateContent (imageRequest_index k a)") (simp_all add: handleSearch_index_try_def)
  then show ?thesis
    using assms(1,2) by (auto simp add: handleSearch_index_def handleSearch_index_begin_def)
qed

text \<open>
  C3, as stated, at a response that has a summary and nothing else: title, ingredients
  and steps are missing, yet both parsers return the object, and the search of the
  credential-aware variant ends with a recipe whose title is unset and with no error.
\<close>

theorem missing_required_fields_accepted:
  "own summary_only ''title'' = None
   \<and> own summary_only ''ingredients'' = None
   \<and> own summary_only ''steps'' = None
   \<and> parse_part000 (Parses summary_only) = Inr summary_only
   \<and> parse_index (Parses summary_only) = Inr summary_only
   \<and> fst (handleSearch_part000 (text_only_service summary_only) keyed_soup_state)
       = keyed_soup_state\<lparr>recipe := Some (spread summary_only None)\<rparr>
   \<and> title (spread summary_only None) = None
   \<and> error (keyed_soup_state\<lparr>recipe := Some (spread summary_only None)\<rparr>) = None"
  by (simp add: summary_only_def handleSearch_part000_def handleSearch_part000_begin_def
      keyed_soup_state_def trim_def is_space_def text_only_service_def textRequest_part000_def
      generateImage_part000_def imageRequest_part000_def spread_def)

text \<open>
  C3, amended. The parser checks no field. Whatever value the text parses to is accepted,
  and each field of the recipe is that value's own property of the same name, unset when
  there is none, required or optional alike. An empty text is the empty object in the
  credential-aware variant and the error \<open>Text generation failed\<close> in \<^verbatim>\<open>src/index.tsx\<close>;
  a text that is not JSON is the only other failure. On a failure the search sets no
  recipe and an error: the classified one in the credential-aware variant (the generation
  failure unless the parse error's message contains one of the strings the classifier
  looks for), the fixed failure message in \<^verbatim>\<open>src/index.tsx\<close>.
\<close>

theorem parser_checks_no_field:
  "parse_part000 (Parses d) = Inr d
   \<and> parse_index (Parses d) = Inr d
   \<and> parse_part000 NoText = Inr (JObj [])
   \<and> parse_index NoText = Inl (Error (Some ''Text generation failed''))
   \<and> parse_part000 (Unparseable e) = Inl e
   \<and> parse_index (Unparseable e) = Inl e
   \<and> spread d img =
       \<lparr> title = own d ''title'', summary = own d ''summary'', cuisine = own d ''cuisine'',
         difficulty = own d ''difficulty'', totalTime = own d ''totalTime'',
         calories = own d ''calories'', ingredients = own d ''ingredients'',
         steps = own d ''steps'', rating = own d ''rating'',
         reviewCount = own d ''reviewCount'', imageUrl = img \<rparr>
   \<and> (apiKey s \<noteq> [] \<and> \<not> (trim (query s) = [] \<and> mainIngredient (filters s) = [])
        \<and> generateContent (textRequest_part000 s) = Resolved textResponse
        \<and> parse_part000 (response_text textResponse) = Inl e
       \<longrightarrow> recipe (fst (handleSearch_part000 generateContent s)) = None
         \<and> error (fst (handleSearch_part000 generateContent s))
             = (if message_includes e ''403'' \<or> message_includes e ''API_KEY_INVALID''
                then Some ApiKeyInvalid
                else if message_includes e ''429'' then Some TooManyRequests
                else Some (GenerationFailed (message_or_unknown e))))
   \<and> (\<not> (trim (query a) = [] \<and> mainIngredient (filters a) = [])
        \<and> generateContent' (textRequest_index k a) = Resolved textResponse'
        \<and> parse_index (response_text textResponse') = Inl e
       \<longrightarrow> recipe (fst (handleSearch_index k generateContent' a)) = None
         \<and> error (fst (handleSearch_index k generateContent' a)) = Some GenerationFailedRetry)"
  using handleSearch_part000_parse_failure [of s generateContent textResponse e]
    handleSearch_index_parse_failure [of a generateContent' k textResponse' e]
  by (simp add: spread_def handleSearch_part000_catch_def)

theorem parser_checks_no_field_witness:
  "apiKey keyed_soup_state \<noteq> []
   \<and> \<not> (trim (query keyed_soup_state) = [] \<and> mainIngredient (filters keyed_soup_state) = [])
   \<and> unparseable_service (textRequest_part000 keyed_soup_state)
       = Resolved \<lparr>response_text = Unparseable (Error (Some ''Unexpected token <'')), candidates = None\<rparr>
   \<and> parse_part000 (response_text
         \<lparr>response_text = Unparseable (Error (Some ''Unexpected token <'')), candidates = None\<rparr>)
       = Inl (Error (Some ''Unexpected token <''))
   \<and> recipe (fst (handleSearch_part000 unparseable_service keyed_soup_state)) = None
   \<and> error (fst (handleSearch_part000 unparseable_service keyed_soup_state))
       = Some (GenerationFailed (Some ''Unexpected token <''))
   \<and> \<not> (trim (query soup_state) = [] \<and> mainIngredient (filters soup_state) = [])
   \<and> unparseable_service (textRequest_index None soup_state)
       = Resolved \<lparr>response_text = Unparseable (Error (Some ''Unexpected token <'')), candidates = None\<rparr>
   \<and> parse_index (response_text
         \<lparr>response_text = Unparseable (Error (Some ''Unexpected token <'')), candidates = None\<rparr>)
       = Inl (Error (Some ''Unexpected token <''))
   \<and> recipe (fst (handleSearch_index None unparseable_service soup_state)) = None
   \<and> error (fst (handleSearch_index None unparseable_service soup_state)) = Some GenerationFailedRetry"
proof -
  have 1: "apiKey keyed_soup_state \<noteq> []" by (simp add: keyed_soup_state_def)
  have 2: "\<not> (trim (query keyed_soup_state) = [] \<and> mainIngredient (filters keyed_soup_state) = [])"
    by (simp add: keyed_soup_state_def trim_soup)
  have 3: "unparseable_service (textRequest_part000 keyed_soup_state)
       = Resolved \<lparr>response_text = Unparseable (Error (Some ''Unexpected token <'')), candidates = None\<rparr>"
    by (simp add: unparseable_service_def)
  have 4: "parse_part000 (response_text
         \<lparr>response_text = Unparseable (Error (Some ''Unexpected token <'')), candidates = None\<rparr>)
       = Inl (Error (Some ''Unexpected token <''))"
    by simp
  have 5: "\<not> (trim (query soup_state) = [] \<and> mainIngredient (filters soup_state) = [])"
    by (simp add: soup_state_def trim_soup)
  have 6: "unparseable_service (textRequest_index None soup_state)
       = Resolved \<lparr>response_text = Unparseable (Error (Some ''Unexpected token <'')), candidates = None\<rparr>"
    by (simp add: unparseable_service_def)
  have 7: "parse_index (response_text
         \<lparr>response_text = Unparseable (Error (Some ''Unexpected token <'')), candidates = None\<rparr>)
       = Inl (Error (Some ''Unexpected token <''))"
    by simp
  have 8: "\<not> message_includes (Error (Some ''Unexpected token <'')) ''403''"
    and 9: "\<not> message_includes (Error (Some ''Unexpected token <'')) ''API_KEY_INVALID''"
    and 10: "\<not> message_includes (Error (Some ''Unexpected token <'')) ''429''"
    and 11: "message_or_unknown (Error (Some ''Unexpected token <'')) = Some ''Unexpected token <''"
    by simp_all
  note c = parser_checks_no_field
    [where s = keyed_soup_state and generateContent = unparseable_service
       and textResponse = "\<lparr>response_text = Unparseable (Error (Some ''Unexpected token <'')), candidates = None\<rparr>"
       and e = "Error (Some ''Unexpected token <'')"
       and a = soup_state and k = None and generateContent' = unparseable_service
       and textResponse' = "\<lparr>response_text = Unparseable (Error (Some ''Unexpected token <'')), candidates = None\<rparr>"]
  have p: "recipe (fst (handleSearch_part000 unparseable_service keyed_soup_state)) = None
     \<and> error (fst (handleSearch_part000 unparseable_service keyed_soup_state))
         = Some (GenerationFailed (Some ''Unexpected token <''))"
    using c 1 2 3 4 8 9 10 11 by presburger
  have q: "recipe (fst (handleSearch_index None unparseable_service soup_state)) = None
     \<and> error (fst (handleSearch_index None unparseable_service soup_state)) = Some GenerationFailedRetry"
    using c 5 6 7 by presburger
  show ?thesis
    using 1 2 3 4 5 6 7 p q by presburger
qed

section \<open>The response schema\<close>

text \<open>
  C4, as stated, at \<^verbatim>\<open>src/index.tsx\<close>: the schema handed to the text request marks eight
  fields required, among them cuisine, difficulty, totalTime and rating.
\<close>

theorem index_schema_requires_eight:
  "config (textRequest_index None soup_state) = TextConfig ''application/json'' responseSchema_index
   \<and> required responseSchema_index
       = [''title'', ''summary'', ''cuisine'', ''difficulty'', ''totalTime'', ''ingredients'',
          ''steps'', ''rating'']
   \<and> set (required responseSchema_index) \<noteq> {''title'', ''summary'', ''ingredients'', ''steps''}"
proof -
  have "''rating'' \<in> set (required responseSchema_index)"
    by (simp add: responseSchema_index_def)
  moreover have "''rating'' \<notin> {''title'', ''summary'', ''ingredients'', ''steps''}"
    by simp
  ultimately have "set (required responseSchema_index) \<noteq> {''title'', ''summary'', ''ingredients'', ''steps''}"
    by metis
  then show ?thesis
    by (simp add: textRequest_index_def responseSchema_index_def)
qed

text \<open>
  C4, amended. For every state the text request carries the variant's fixed schema, and
  no other text request is issued. Both schemas declare the same ten fields. The
  credential-aware variant marks exactly title, summary, ingredients and steps required
  and leaves cuisine, difficulty, totalTime, calories, rating and reviewCount optional;
  \<^verbatim>\<open>src/index.tsx\<close> marks eight required and leaves only calories and reviewCount optional.
\<close>

theorem responseSchema_required_fields:
  "config (textRequest_part000 s) = TextConfig ''application/json'' responseSchema_part000
   \<and> required responseSchema_part000 = [''title'', ''summary'', ''ingredients'', ''steps'']
   \<and> filter (\<lambda>k. k \<notin> set (required responseSchema_part000))
         (map fst (properties responseSchema_part000))
       = [''cuisine'', ''difficulty'', ''totalTime'', ''calories'', ''rating'', ''reviewCount'']
   \<and> config (textRequest_index k a) = TextConfig ''application/json'' responseSchema_index
   \<and> required responseSchema_index
       = [''title'', ''summary'', ''cuisine'', ''difficulty'', ''totalTime'', ''ingredients'',
          ''steps'', ''rating'']
   \<and> filter (\<lambda>k. k \<notin> set (required responseSchema_index))
         (map fst (properties responseSchema_index))
       = [''calories'', ''reviewCount'']
   \<and> snd (handleSearch_part000_begin s) \<in> {None, Some (textRequest_part000 s)}
   \<and> map_option fst (snd (handleSearch_index_begin k a)) \<in> {None, Some (textRequest_index k a)}"
  by (simp add: textRequest_part000_def textRequest_index_def responseSchema_part000_def
      responseSchema_index_def handleSearch_part000_begin_def handleSearch_index_begin_def)

section \<open>The relay\<close>

lemma handler_try_not_ok:
  assumes "request_json req = Inr b" and "b \<noteq> JNull"
    and "fetch (upstreamRequest fallback (own b ''messages'') (own b ''apiKey'')) = Resolved up"
    and "\<not> ok up" and "upstream_text up = Inr errorText"
    and "200 \<le> status up" and "status up \<le> 599" and "status up \<noteq> 304"
  shows "handler_try fallback fetch req
           = Inr \<lparr> response_status = status up, content_type = ''application/json'',
                   response_body =
                     JSON_stringify
                       (JObj [(''error'', JStr (''Provider Error: '' @ show_nat (status up))),
                              (''details'', JStr errorText)]) \<rparr>"
proof -
  have "status up \<noteq> 204 \<and> status up \<noteq> 205"
    using assms(4,6) by (auto simp add: ok_def)
  then show ?thesis
    using assms by (simp add: handler_try_def read_prop_own new_Response_def)
qed

lemma handler_try_ok:
  assumes "request_json req = Inr b" and "b \<noteq> JNull"
    and "fetch (upstreamRequest fallback (own b ''messages'') (own b ''apiKey'')) = Resolved up"
    and "ok up" and "upstream_json up = Inr d"
  shows "handler_try fallback fetch req
           = Inr \<lparr> response_status = 200, content_type = ''application/json'',
                   response_body = JSON_stringify d \<rparr>"
  using assms by (simp add: handler_try_def read_prop_own new_Response_def)

text \<open>
  C5, as stated, at an upstream answer with status 500 and body \<open>busy\<close>: the relay
  answers 500, but its body is a JSON object with the fields \<open>error\<close> and \<open>details\<close>, not
  the upstream body.
\<close>

theorem relay_failure_body_is_not_verbatim:
  "http_method post_request = ''POST''
   \<and> upstream_text failing_upstream = Inr ''busy''
   \<and> response_status (handler ''sk-embedded'' (answering failing_upstream) post_request) = 500
   \<and> response_body (handler ''sk-embedded'' (answering failing_upstream) post_request)
       = JSON_stringify (JObj [(''error'', JStr ''Provider Error: 500''), (''details'', JStr ''busy'')])
   \<and> response_body (handler ''sk-embedded'' (answering failing_upstream) post_request) \<noteq> ''busy''"
  by (simp add: handler_def handler_try_def post_request_def failing_upstream_def answering_def
      ok_def new_Response_def quote_def quote_char_def)

text \<open>
  C5, amended. A request that is not a POST is answered 405. A POST whose \<^verbatim>\<open>try\<close> block
  throws is answered 500 with the error's message under \<open>error\<close>. When the upstream answers
  with a status that is not OK (and with which a response with a body can be built), the
  relay answers with that status and a JSON object holding \<open>Provider Error:\<close> and the
  status under \<open>error\<close> and the upstream body text under \<open>details\<close>. When the upstream
  answers OK with a JSON body, the relay answers 200 with that JSON, serialised again.
\<close>

theorem relay_responses:
  "(http_method req \<noteq> ''POST'' \<longrightarrow>
      handler fallback fetch req
        = \<lparr> response_status = 405, content_type = ''application/json'',
            response_body = JSON_stringify (JObj [(''error'', JStr ''Method Not Allowed'')]) \<rparr>)
   \<and> (http_method req = ''POST'' \<and> handler_try fallback fetch req = Inl err \<longrightarrow>
      handler fallback fetch req
        = \<lparr> response_status = 500, content_type = ''application/json'',
            response_body = JSON_stringify (JObj (entry ''error'' (map_option JStr (message err)))) \<rparr>)
   \<and> (http_method req = ''POST'' \<and> request_json req = Inr b \<and> b \<noteq> JNull
       \<and> fetch (upstreamRequest fallback (own b ''messages'') (own b ''apiKey'')) = Resolved up
       \<and> \<not> ok up \<and> upstream_text up = Inr errorText
       \<and> 200 \<le> status up \<and> status up \<le> 599 \<and> status up \<noteq> 304 \<longrightarrow>
      handler fallback fetch req
        = \<lparr> response_status = status up, content_type = ''application/json'',
            response_body =
              JSON_stringify
                (JObj [(''error'', JStr (''Provider Error: '' @ show_nat (status up))),
                       (''details'', JStr errorText)]) \<rparr>)
   \<and> (http_method req = ''POST'' \<and> request_json req = Inr b \<and> b \<noteq> JNull
       \<and> fetch (upstreamRequest fallback (own b ''messages'') (own b ''apiKey'')) = Resolved up
       \<and> ok up \<and> upstream_json up = Inr d \<longrightarrow>
      handler fallback fetch req
        = \<lparr> response_status = 200, content_type = ''application/json'',
            response_body = JSON_stringify d \<rparr>)"
proof (intro conjI impI)
  assume "http_method req \<noteq> ''POST''"
  then show "handler fallback fetch req
        = \<lparr> response_status = 405, content_type = ''application/json'',
            response_body = JSON_stringify (JObj [(''error'', JStr ''Method Not Allowed'')]) \<rparr>"
    by (simp add: handler_def)
next
  assume "http_method req = ''POST'' \<and> handler_try fallback fetch req = Inl err"
  then show "handler fallback fetch req
        = \<lparr> response_status = 500, content_type = ''application/json'',
            response_body = JSON_stringify (JObj (entry ''error'' (map_option JStr (message err)))) \<rparr>"
    by (simp add: handler_def)
next
  assume h: "http_method req = ''POST'' \<and> request_json req = Inr b \<and> b \<noteq> JNull
       \<and> fetch (upstreamRequest fallback (own b ''messages'') (own b ''apiKey'')) = Resolved up
       \<and> \<not> ok up \<and> upstream_text up = Inr errorText
       \<and> 200 \<le> status up \<and> status up \<le> 599 \<and> status up \<noteq> 304"
  then have "handler_try fallback fetch req
           = Inr \<lparr> response_status = status up, content_type = ''application/json'',
                   response_body =
                     JSON_stringify
                       (JObj [(''error'', JStr (''Provider Error: '' @ show_nat (status up))),
                              (''details'', JStr errorText)]) \<rparr>"
    using handler_try_not_ok [of req b fetch fallback up errorText] by blast
  with h show "handler fallback fetch req
        = \<lparr> response_status = status up, content_type = ''application/json'',
            response_body =
              JSON_stringify
                (JObj [(''error'', JStr (''Provider Error: '' @ show_nat (status up))),
                       (''details'', JStr errorText)]) \<rparr>"
    by (simp add: handler_def)
next
  assume h: "http_method req = ''POST'' \<and> request_json req = Inr b \<and> b \<noteq> JNull
       \<and> fetch (upstreamRequest fallback (own b ''messages'') (own b ''apiKey'')) = Resolved up
       \<and> ok up \<and> upstream_json up = Inr d"
  then have "handler_try fallback fetch req
           = Inr \<lparr> response_status = 200, content_type = ''application/json'',
                   response_body = JSON_stringify d \<rparr>"
    using handler_try_ok [of req b fetch fallback up d] by blast
  with h show "handler fallback fetch req
        = \<lparr> response_status = 200, content_type = ''application/json'',
            response_body = JSON_stringify d \<rparr>"
    by (simp add: handler_def)
qed

theorem relay_responses_witness:
  "http_method get_request \<noteq> ''POST''
   \<and> handler ''sk-embedded'' network_down get_request
       = \<lparr> response_status = 405, content_type = ''application/json'',
           response_body = JSON_stringify (JObj [(''error'', JStr ''Method Not Allowed'')]) \<rparr>
   \<and> http_method post_request = ''POST''
   \<and> handler_try ''sk-embedded'' network_down post_request = Inl (Error (Some ''fetch failed''))
   \<and> handler ''sk-embedded'' network_down post_request
       = \<lparr> response_status = 500, content_type = ''application/json'',
           response_body = JSON_stringify (JObj [(''error'', JStr ''fetch failed'')]) \<rparr>
   \<and> request_json post_request = Inr (JObj [(''messages'', JArr [])])
   \<and> JObj [(''messages'', JArr [])] \<noteq> JNull
   \<and> answering failing_upstream
         (upstreamRequest ''sk-embedded'' (own (JObj [(''messages'', JArr [])]) ''messages'')
            (own (JObj [(''messages'', JArr [])]) ''apiKey''))
       = Resolved failing_upstream
   \<and> \<not> ok failing_upstream
   \<and> upstream_text failing_upstream = Inr ''busy''
   \<and> 200 \<le> status failing_upstream \<and> status failing_upstream \<le> 599
   \<and> status failing_upstream \<noteq> 304
   \<and> handler ''sk-embedded'' (answering failing_upstream) post_request
       = \<lparr> response_status = 500, content_type = ''application/json'',
           response_body =
             JSON_stringify
               (JObj [(''error'', JStr ''Provider Error: 500''), (''details'', JStr ''busy'')]) \<rparr>
   \<and> answering successful_upstream
         (upstreamRequest ''sk-embedded'' (own (JObj [(''messages'', JArr [])]) ''messages'')
            (own (JObj [(''messages'', JArr [])]) ''apiKey''))
       = Resolved successful_upstream
   \<and> ok successful_upstream
   \<and> upstream_json successful_upstream = Inr (JObj [(''id'', JStr ''1'')])
   \<and> handler ''sk-embedded'' (answering successful_upstream) post_request
       = \<lparr> response_status = 200, content_type = ''application/json'',
           response_body = JSON_stringify (JObj [(''id'', JStr ''1'')]) \<rparr>"
proof -
  have g: "http_method get_request \<noteq> ''POST''"
    by (simp add: get_request_def)
  have p: "http_method post_request = ''POST''"
    and pj: "request_json post_request = Inr (JObj [(''messages'', JArr [])])"
    by (simp_all add: post_request_def)
  have nn: "JObj [(''messages'', JArr [])] \<noteq> JNull"
    by simp
  have t: "handler_try ''sk-embedded'' network_down post_request = Inl (Error (Some ''fetch failed''))"
    by (simp add: handler_try_def post_request_def network_down_def)
  have f1: "answering failing_upstream
         (upstreamRequest ''sk-embedded'' (own (JObj [(''messages'', JArr [])]) ''messages'')
            (own (JObj [(''messages'', JArr [])]) ''apiKey''))
       = Resolved failing_upstream"
    and s1: "answering successful_upstream
         (upstreamRequest ''sk-embedded'' (own (JObj [(''messages'', JArr [])]) ''messages'')
            (own (JObj [(''messages'', JArr [])]) ''apiKey''))
       = Resolved successful_upstream"
    by (simp_all add: answering_def)
  have f2: "\<not> ok failing_upstream" and f3: "upstream_text failing_upstream = Inr ''busy''"
    and f4: "200 \<le> status failing_upstream" and f5: "status failing_upstream \<le> 599"
    and f6: "status failing_upstream \<noteq> 304" and f7: "status failing_upstream = 500"
    by (simp_all add: failing_upstream_def ok_def)
  have s2: "ok successful_upstream"
    and s3: "upstream_json successful_upstream = Inr (JObj [(''id'', JStr ''1'')])"
    by (simp_all add: successful_upstream_def ok_def)
  have m: "entry ''error'' (map_option JStr (message (Error (Some ''fetch failed''))))
             = [(''error'', JStr ''fetch failed'')]"
    by simp
  have n: "''Provider Error: '' @ show_nat 500 = ''Provider Error: 500''"
    by simp
  note a = relay_responses
    [where req = get_request and fallback = "''sk-embedded''" and fetch = network_down]
  note b = relay_responses
    [where req = post_request and fallback = "''sk-embedded''" and fetch = network_down
       and err = "Error (Some ''fetch failed'')"]
  note c = relay_responses
    [where req = post_request and fallback = "''sk-embedded''"
       and fetch = "answering failing_upstream" and b = "JObj [(''messages'', JArr [])]"
       and up = failing_upstream and errorText = "''busy''"]
  note d = relay_responses
    [where req = post_request and fallback = "''sk-embedded''"
       and fetch = "answering successful_upstream" and b = "JObj [(''messages'', JArr [])]"
       and up = successful_upstream and d = "JObj [(''id'', JStr ''1'')]"]
  have r1: "handler ''sk-embedded'' network_down get_request
       = \<lparr> response_status = 405, content_type = ''application/json'',
           response_body = JSON_stringify (JObj [(''error'', JStr ''Method Not Allowed'')]) \<rparr>"
    using a [THEN conjunct1] g by (rule mp)
  have r2: "handler ''sk-embedded'' network_down post_request
       = \<lparr> response_status = 500, content_type = ''application/json'',
           response_body = JSON_stringify (JObj [(''error'', JStr ''fetch failed'')]) \<rparr>"
    using b [THEN conjunct2, THEN conjunct1, THEN mp, OF conjI [OF p t]] by (simp only: m)
  have r3: "handler ''sk-embedded'' (answering failing_upstream) post_request
       = \<lparr> response_status = 500, content_type = ''application/json'',
           response_body =
             JSON_stringify
               (JObj [(''error'', JStr ''Provider Error: 500''), (''details'', JStr ''busy'')]) \<rparr>"
  proof -
    have h: "http_method post_request = ''POST'' \<and> request_json post_request = Inr (JObj [(''messages'', JArr [])])
       \<and> JObj [(''messages'', JArr [])] \<noteq> JNull
       \<and> answering failing_upstream
           (upstreamRequest ''sk-embedded'' (own (JObj [(''messages'', JArr [])]) ''messages'')
              (own (JObj [(''messages'', JArr [])]) ''apiKey'')) = Resolved failing_upstream
       \<and> \<not> ok failing_upstream \<and> upstream_text failing_upstream = Inr ''busy''
       \<and> 200 \<le> status failing_upstream \<and> status failing_upstream \<le> 599
       \<and> status failing_upstream \<noteq> 304"
      by (intro conjI) (fact p pj nn f1 f2 f3 f4 f5 f6)+
    show ?thesis
      using c [THEN conjunct2, THEN conjunct2, THEN conjunct1, THEN mp, OF h]
      by (simp only: f7 n)
  qed
  have r4: "handler ''sk-embedded'' (answering successful_upstream) post_request
       = \<lparr> response_status = 200, content_type = ''application/json'',
           response_body = JSON_stringify (JObj [(''id'', JStr ''1'')]) \<rparr>"
  proof -
    have h: "http_method post_request = ''POST'' \<and> request_json post_request = Inr (JObj [(''messages'', JArr [])])
       \<and> JObj [(''messages'', JArr [])] \<noteq> JNull
       \<and> answering successful_upstream
           (upstreamRequest ''sk-embedded'' (own (JObj [(''messages'', JArr [])]) ''messages'')
              (own (JObj [(''messages'', JArr [])]) ''apiKey'')) = Resolved successful_upstream
       \<and> ok successful_upstream
       \<and> upstream_json successful_upstream = Inr (JObj [(''id'', JStr ''1'')])"
      by (intro conjI) (fact p pj nn s1 s2 s3)+
    show ?thesis
      by (rule d [THEN conjunct2, THEN conjunct2, THEN conjunct2, THEN mp, OF h])
  qed
  show ?thesis
    by (intro conjI) (fact g p t pj nn f1 f2 f3 f4 f5 f6 s1 s2 s3 r1 r2 r3 r4)+
qed

section \<open>Validation\<close>

text \<open>
  C6, as stated, at a blank query, an empty main ingredient and no stored key in the
  credential-aware variant: the credential guard comes first, the settings are opened and
  no validation message is set.
\<close>

theorem blank_search_without_key_sets_no_error:
  "trim (query (blank_keyed_state [])) = []
   \<and> mainIngredient (filters (blank_keyed_state [])) = []
   \<and> handleSearch_part000 (text_only_service soup_json) (blank_keyed_state [])
       = ((blank_keyed_state [])\<lparr>showSettings := True\<rparr>, [])
   \<and> error ((blank_keyed_state [])\<lparr>showSettings := True\<rparr>) = None"
  by (simp add: blank_keyed_state_def handleSearch_part000_def handleSearch_part000_begin_def
      trim_blank)

text \<open>
  C6, amended. With a blank query and an empty main ingredient, whatever the other
  filters: \<^verbatim>\<open>src/index.tsx\<close>, and the credential-aware variant when a key is held, set the
  validation message, issue no request and leave the recipe as it was. Without a key the
  credential-aware variant opens the settings instead, sets no message, issues no request
  and leaves the recipe as it was.
\<close>

theorem blank_search_is_rejected:
  "(trim (query a) = [] \<and> mainIngredient (filters a) = []
      \<longrightarrow> handleSearch_index k generateContent a = (a\<lparr>error := Some EnterDishOrIngredient\<rparr>, [])
        \<and> recipe (fst (handleSearch_index k generateContent a)) = recipe a)
   \<and> (trim (query s) = [] \<and> mainIngredient (filters s) = [] \<and> apiKey s \<noteq> []
      \<longrightarrow> handleSearch_part000 generateContent s = (s\<lparr>error := Some EnterDishOrIngredient\<rparr>, [])
        \<and> recipe (fst (handleSearch_part000 generateContent s)) = recipe s)
   \<and> (apiKey s = []
      \<longrightarrow> handleSearch_part000 generateContent s = (s\<lparr>showSettings := True\<rparr>, [])
        \<and> recipe (fst (handleSearch_part000 generateContent s)) = recipe s
        \<and> error (fst (handleSearch_part000 generateContent s)) = error s)"
  by (simp add: handleSearch_index_def handleSearch_index_begin_def handleSearch_part000_def
      handleSearch_part000_begin_def)

theorem blank_search_is_rejected_witness:
  "trim (query blank_state) = [] \<and> mainIngredient (filters blank_state) = []
   \<and> handleSearch_index None (text_only_service soup_json) blank_state
       = (blank_state\<lparr>error := Some EnterDishOrIngredient\<rparr>, [])
   \<and> trim (query (blank_keyed_state ''key'')) = []
   \<and> mainIngredient (filters (blank_keyed_state ''key'')) = []
   \<and> apiKey (blank_keyed_state ''key'') \<noteq> []
   \<and> handleSearch_part000 (text_only_service soup_json) (blank_keyed_state ''key'')
       = ((blank_keyed_state ''key'')\<lparr>error := Some EnterDishOrIngredient\<rparr>, [])
   \<and> apiKey (blank_keyed_state []) = []
   \<and> handleSearch_part000 (text_only_service soup_json) (blank_keyed_state [])
       = ((blank_keyed_state [])\<lparr>showSettings := True\<rparr>, [])"
proof -
  have a: "trim (query blank_state) = [] \<and> mainIngredient (filters blank_state) = []"
    by (simp add: blank_state_def trim_blank)
  have b: "trim (query (blank_keyed_state ''key'')) = []
           \<and> mainIngredient (filters (blank_keyed_state ''key'')) = []
           \<and> apiKey (blank_keyed_state ''key'') \<noteq> []"
    by (simp add: blank_keyed_state_def trim_blank)
  have c: "apiKey (blank_keyed_state []) = []"
    by (simp add: blank_keyed_state_def)
  show ?thesis
    using a b c
      blank_search_is_rejected [where a = blank_state and s = "blank_keyed_state ''key''"
        and k = None and generateContent = "text_only_service soup_json"]
      blank_search_is_rejected [where a = blank_state and s = "blank_keyed_state []"
        and k = None and generateContent = "text_only_service soup_json"]
    by simp
qed

section \<open>Error classification\<close>

text \<open>
  C7. When the text request of a search is rejected with an error whose message carries
  \<open>403\<close> or \<open>API_KEY_INVALID\<close> (the provider's signals that the credential was refused),
  the search ends with the invalid-key message, the settings open, no recipe, and only
  the text request issued.
\<close>

theorem authorization_error_reopens_settings:
  assumes "apiKey s \<noteq> []"
    and "\<not> (trim (query s) = [] \<and> mainIngredient (filters s) = [])"
    and "generateContent (textRequest_part000 s) = Rejected err"
    and "message_includes err ''403'' \<or> message_includes err ''API_KEY_INVALID''"
  shows "handleSearch_part000 generateContent s
           = (s\<lparr>loading := False, recipe := None, error := Some ApiKeyInvalid, showSettings := True\<rparr>,
              [textRequest_part000 s])"
  using assms
  by (auto simp add: handleSearch_part000_def part000_begin_proceeds handleSearch_part000_catch_def)

theorem authorization_error_reopens_settings_witness:
  "apiKey keyed_soup_state \<noteq> []
   \<and> \<not> (trim (query keyed_soup_state) = [] \<and> mainIngredient (filters keyed_soup_state) = [])
   \<and> rejecting_service ''got status: 403 Forbidden'' (textRequest_part000 keyed_soup_state)
       = Rejected (Error (Some ''got status: 403 Forbidden''))
   \<and> message_includes (Error (Some ''got status: 403 Forbidden'')) ''403''
   \<and> handleSearch_part000 (rejecting_service ''got status: 403 Forbidden'') keyed_soup_state
       = (keyed_soup_state\<lparr>loading := False, recipe := None, error := Some ApiKeyInvalid,
            showSettings := True\<rparr>,
          [textRequest_part000 keyed_soup_state])"
proof -
  have 1: "apiKey keyed_soup_state \<noteq> []" by (simp add: keyed_soup_state_def)
  have 2: "\<not> (trim (query keyed_soup_state) = [] \<and> mainIngredient (filters keyed_soup_state) = [])"
    by (simp add: keyed_soup_state_def trim_soup)
  have 3: "rejecting_service ''got status: 403 Forbidden'' (textRequest_part000 keyed_soup_state)
             = Rejected (Error (Some ''got status: 403 Forbidden''))"
    by (simp add: rejecting_service_def)
  have 4: "message_includes (Error (Some ''got status: 403 Forbidden'')) ''403''"
    by simp
  have 5: "message_includes (Error (Some ''got status: 403 Forbidden'')) ''403''
           \<or> message_includes (Error (Some ''got status: 403 Forbidden'')) ''API_KEY_INVALID''"
    using 4 by simp
  show ?thesis
    using 1 2 3 4
      authorization_error_reopens_settings
        [where generateContent = "rejecting_service ''got status: 403 Forbidden''", OF 1 2 3 5]
    by simp
qed

section \<open>Filter toggling\<close>

lemma field_with_field_same: "field k (with_field k v f) = v"
  by (cases k) simp_all

lemma field_with_field_other: "k' \<noteq> k \<Longrightarrow> field k' (with_field k v f) = field k' f"
  by (cases k; cases k') simp_all

text \<open>
  C8. For every filter state and every key: toggling the key to its current value leaves
  the key empty; toggling it to a different value stores that value in place of the old
  one; every other key keeps its value.
\<close>

theorem toggleFilter_single_select:
  "field k (toggleFilter k (field k f) f) = []
   \<and> (v \<noteq> field k f \<longrightarrow> field k (toggleFilter k v f) = v)
   \<and> (k' \<noteq> k \<longrightarrow> field k' (toggleFilter k v f) = field k' f)"
  by (simp add: toggleFilter_def field_with_field_same field_with_field_other)

theorem toggleFilter_single_select_witness:
  "field Cuisine (toggleFilter Cuisine
       (field Cuisine \<lparr>cuisine = ''A'', timeLimit = ''T'', difficulty = [], mainIngredient = []\<rparr>)
       \<lparr>cuisine = ''A'', timeLimit = ''T'', difficulty = [], mainIngredient = []\<rparr>) = []
   \<and> ''B'' \<noteq> field Cuisine \<lparr>cuisine = ''A'', timeLimit = ''T'', difficulty = [], mainIngredient = []\<rparr>
   \<and> field Cuisine (toggleFilter Cuisine ''B''
       \<lparr>cuisine = ''A'', timeLimit = ''T'', difficulty = [], mainIngredient = []\<rparr>) = ''B''
   \<and> TimeLimit \<noteq> Cuisine
   \<and> field TimeLimit (toggleFilter Cuisine ''B''
       \<lparr>cuisine = ''A'', timeLimit = ''T'', difficulty = [], mainIngredient = []\<rparr>) = ''T''"
  using toggleFilter_single_select
    [of Cuisine "\<lparr>cuisine = ''A'', timeLimit = ''T'', difficulty = [], mainIngredient = []\<rparr>"
        "''B''" TimeLimit]
  by simp

section \<open>The credential round trip\<close>

text \<open>
  C9. Saving a token that is not blank makes its trimmed text the active key, and the
  mount effect then loads that same text. Clearing empties the active key; the mount
  effect then finds nothing stored, and either asks for a key (the key stays empty and
  the settings open) when the environment supplies none, or takes the environment's.
\<close>

theorem credential_round_trip:
  "(trim t \<noteq> [] \<longrightarrow>
      apiKey (snd (handleSaveKey t (w, s))) = trim t
      \<and> apiKey (initApiKey (fst (handleSaveKey t (w, s))) initialState) = trim t)
   \<and> apiKey (snd (handleClearKey (w, s))) = []
   \<and> (truthy_string (env_API_KEY w) = None \<longrightarrow>
        initApiKey (fst (handleClearKey (w, s))) initialState = initialState\<lparr>showSettings := True\<rparr>
        \<and> apiKey (initApiKey (fst (handleClearKey (w, s))) initialState) = [])
   \<and> (truthy_string (env_API_KEY w) = Some e \<longrightarrow>
        apiKey (initApiKey (fst (handleClearKey (w, s))) initialState) = e)"
  by (simp add: handleSaveKey_def handleClearKey_def initApiKey_def initialState_def)

theorem credential_round_trip_witness:
  "trim '' my-key '' \<noteq> []
   \<and> apiKey (snd (handleSaveKey '' my-key '' (empty_browser None, initialState))) = ''my-key''
   \<and> apiKey (initApiKey (fst (handleSaveKey '' my-key '' (empty_browser None, initialState)))
        initialState) = ''my-key''
   \<and> truthy_string (env_API_KEY (empty_browser None)) = None
   \<and> initApiKey (fst (handleClearKey
          (handleSaveKey '' my-key '' (empty_browser None, initialState)))) initialState
       = initialState\<lparr>showSettings := True\<rparr>
   \<and> truthy_string (env_API_KEY (empty_browser (Some ''env-key''))) = Some ''env-key''
   \<and> apiKey (initApiKey (fst (handleClearKey
          (handleSaveKey '' my-key '' (empty_browser (Some ''env-key''), initialState)))) initialState)
       = ''env-key''"
proof -
  have t: "trim '' my-key '' = ''my-key''"
    by (simp add: trim_def is_space_def)
  have t': "trim '' my-key '' \<noteq> []"
    by (simp add: t)
  have e1: "truthy_string (env_API_KEY (empty_browser None)) = None"
    and e2: "truthy_string (env_API_KEY (empty_browser (Some ''env-key''))) = Some ''env-key''"
    by (simp_all add: empty_browser_def)
  have e3: "truthy_string (env_API_KEY (fst (handleSaveKey '' my-key '' (empty_browser None, initialState)))) = None"
    and e4: "truthy_string (env_API_KEY (fst (handleSaveKey '' my-key ''
                 (empty_browser (Some ''env-key''), initialState)))) = Some ''env-key''"
    by (simp_all add: empty_browser_def handleSaveKey_def)
  note a = credential_round_trip
    [where t = "'' my-key ''" and w = "empty_browser None" and s = initialState]
  note b = credential_round_trip
    [where w = "fst (handleSaveKey '' my-key '' (empty_browser None, initialState))"
       and s = "snd (handleSaveKey '' my-key '' (empty_browser None, initialState))"]
  note c = credential_round_trip
    [where w = "fst (handleSaveKey '' my-key '' (empty_browser (Some ''env-key''), initialState))"
       and s = "snd (handleSaveKey '' my-key '' (empty_browser (Some ''env-key''), initialState))"
       and e = "''env-key''"]
  have r1: "apiKey (snd (handleSaveKey '' my-key '' (empty_browser None, initialState))) = ''my-key''
     \<and> apiKey (initApiKey (fst (handleSaveKey '' my-key '' (empty_browser None, initialState)))
          initialState) = ''my-key''"
    by (rule a [THEN conjunct1, THEN mp, OF t', unfolded t])
  have r2: "initApiKey (fst (handleClearKey
          (handleSaveKey '' my-key '' (empty_browser None, initialState)))) initialState
       = initialState\<lparr>showSettings := True\<rparr>"
    using b [THEN conjunct2, THEN conjunct2, THEN conjunct1, THEN mp, OF e3]
    by (simp only: prod.collapse)
  have r3: "apiKey (initApiKey (fst (handleClearKey
          (handleSaveKey '' my-key '' (empty_browser (Some ''env-key''), initialState)))) initialState)
       = ''env-key''"
    using c [THEN conjunct2, THEN conjunct2, THEN conjunct2, THEN mp, OF e4]
    by (simp only: prod.collapse)
  show ?thesis
    by (intro conjI) (fact t' r1 [THEN conjunct1] r1 [THEN conjunct2] e1 r2 e2 r3)+
qed

section \<open>A main ingredient of white space\<close>

lemma index_try_error:
  "handleSearch_index_try t i s1 = Inr s' \<Longrightarrow> error s' = error s1"
  by (auto simp add: handleSearch_index_try_def split: outcome.splits sum.splits prod.splits if_splits)

lemma index_proceeds:
  assumes "mainIngredient (filters a) \<noteq> []"
  shows "snd (handleSearch_index k generateContent a) = [textRequest_index k a, imageRequest_index k a]
         \<and> error (fst (handleSearch_index k generateContent a)) \<noteq> Some EnterDishOrIngredient"
proof (cases "handleSearch_index_try (generateContent (textRequest_index k a))
                (generateContent (imageRequest_index k a))
                (a\<lparr>loading := True, error := None, recipe := None\<rparr>)")
  case (Inl e)
  then show ?thesis
    using assms by (simp add: handleSearch_index_def handleSearch_index_begin_def)
next
  case (Inr s')
  then have "error s' = None"
    using index_try_error [OF Inr] by simp
  then show ?thesis
    using assms Inr by (simp add: handleSearch_index_def handleSearch_index_begin_def)
qed

lemma part000_catch_not_validation:
  "error (handleSearch_part000_catch err s) \<noteq> Some EnterDishOrIngredient"
  by (simp add: handleSearch_part000_catch_def)

lemma part000_proceeds:
  assumes "apiKey s \<noteq> []" and "mainIngredient (filters s) \<noteq> []"
  shows "(\<exists>rest. snd (handleSearch_part000 generateContent s) = textRequest_part000 s # rest)
         \<and> error (fst (handleSearch_part000 generateContent s)) \<noteq> Some EnterDishOrIngredient"
  using assms
  by (auto simp add: handleSearch_part000_def handleSearch_part000_begin_def
      part000_catch_not_validation split: outcome.splits sum.splits prod.splits)

text \<open>
  C10. The query is trimmed before it is tested, the main ingredient is not: with an
  empty query and a main ingredient that is not empty but blank after trimming (a single
  space), the search passes the validation. Both variants (the credential-aware one when
  a key is held) issue the text request and never end with the validation message.
\<close>

theorem whitespace_ingredient_passes_validation:
  "(query a = [] \<and> mainIngredient (filters a) \<noteq> [] \<and> trim (mainIngredient (filters a)) = []
      \<longrightarrow> snd (handleSearch_index k generateContent a)
            = [textRequest_index k a, imageRequest_index k a]
        \<and> error (fst (handleSearch_index k generateContent a)) \<noteq> Some EnterDishOrIngredient)
   \<and> (query s = [] \<and> mainIngredient (filters s) \<noteq> [] \<and> trim (mainIngredient (filters s)) = []
       \<and> apiKey s \<noteq> []
      \<longrightarrow> (\<exists>rest. snd (handleSearch_part000 generateContent s) = textRequest_part000 s # rest)
        \<and> error (fst (handleSearch_part000 generateContent s)) \<noteq> Some EnterDishOrIngredient)"
  using index_proceeds [of a k generateContent] part000_proceeds [of s generateContent]
  by blast

theorem whitespace_ingredient_passes_validation_witness:
  "query space_ingredient_state = []
   \<and> mainIngredient (filters space_ingredient_state) = '' ''
   \<and> trim (mainIngredient (filters space_ingredient_state)) = []
   \<and> snd (handleSearch_index None (text_only_service soup_json) space_ingredient_state)
       = [textRequest_index None space_ingredient_state, imageRequest_index None space_ingredient_state]
   \<and> error (fst (handleSearch_index None (text_only_service soup_json) space_ingredient_state))
       \<noteq> Some EnterDishOrIngredient
   \<and> query space_ingredient_keyed_state = []
   \<and> mainIngredient (filters space_ingredient_keyed_state) = '' ''
   \<and> trim (mainIngredient (filters space_ingredient_keyed_state)) = []
   \<and> apiKey space_ingredient_keyed_state \<noteq> []
   \<and> (\<exists>rest. snd (handleSearch_part000 (text_only_service soup_json) space_ingredient_keyed_state)
                = textRequest_part000 space_ingredient_keyed_state # rest)
   \<and> error (fst (handleSearch_part000 (text_only_service soup_json) space_ingredient_keyed_state))
       \<noteq> Some EnterDishOrIngredient"
proof -
  have a1: "query space_ingredient_state = []"
    and a2: "mainIngredient (filters space_ingredient_state) = '' ''"
    and a3: "trim (mainIngredient (filters space_ingredient_state)) = []"
    by (simp_all add: space_ingredient_state_def trim_def is_space_def)
  have b1: "query space_ingredient_keyed_state = []"
    and b2: "mainIngredient (filters space_ingredient_keyed_state) = '' ''"
    and b3: "trim (mainIngredient (filters space_ingredient_keyed_state)) = []"
    and b4: "apiKey space_ingredient_keyed_state \<noteq> []"
    by (simp_all add: space_ingredient_keyed_state_def trim_def is_space_def)
  have a2': "mainIngredient (filters space_ingredient_state) \<noteq> []"
    and b2': "mainIngredient (filters space_ingredient_keyed_state) \<noteq> []"
    by (simp_all add: a2 b2)
  note c = whitespace_ingredient_passes_validation
        [where a = space_ingredient_state and s = space_ingredient_keyed_state
           and k = None and generateContent = "text_only_service soup_json"]
  show ?thesis
    using a1 a2 a3 b1 b2 b3 b4 a2' b2' c by blast
qed

end
